theory Spec2Isabelle
  imports Complex_Main "HOL-Library.Log_Nat" "HOL-Library.Char_ord" "HOL-Library.List_Lexorder"
begin

section \<open>SQLite values and arithmetic\<close>

text \<open>
  The tables of \<open>ImmuneDrugTrialAnalysis.py\<close> live in SQLite. A column declared
  \<open>INTEGER\<close> holds signed 64-bit integers, the literal \<open>100.0\<close> and every result of
  an operator with a \<open>REAL\<close> operand is an IEEE binary64 number. A binary64 number is
  modelled by the rational it denotes; \<open>fl\<close> rounds a rational to the nearest number
  with a 53-bit significand, ties to even. The exponent range is left out: every
  magnitude computed by the view from 64-bit counts lies between \<open>2^-70\<close> and \<open>2^70\<close>.
\<close>

definition rne :: "rat \<Rightarrow> int" where
  "rne y = (let f = \<lfloor>y\<rfloor>; r = y - of_int f in
     if r < 1/2 then f else if 1/2 < r then f + 1 else if even f then f else f + 1)"

definition expo :: "rat \<Rightarrow> int" where
  \<comment> \<open>the binary exponent \<open>e\<close> of a non-zero \<open>x\<close>: \<open>2^e \<le> \<bar>x\<bar> < 2^(e+1)\<close>\<close>
  "expo x = (let a = \<bar>x\<bar> in
     if 1 \<le> a then int (floorlog 2 (nat \<lfloor>a\<rfloor>)) - 1
     else - int (floorlog 2 (nat (\<lceil>1 / a\<rceil> - 1))))"

definition fl :: "rat \<Rightarrow> rat" where
  "fl x = (if x = 0 then 0 else
     let q = 2 powi (expo x - 52) in of_int (rne (x / q)) * q)"

datatype sqlval = SqlNull | SqlInt int | SqlReal rat

definition int64 :: "int \<Rightarrow> bool" where
  "int64 i \<longleftrightarrow> - (2 ^ 63) \<le> i \<and> i < 2 ^ 63"

fun to_double :: "sqlval \<Rightarrow> rat" where
  \<comment> \<open>\<open>sqlite3VdbeRealValue\<close>: an integer is cast to double, which rounds\<close>
  "to_double (SqlInt i) = fl (of_int i)"
| "to_double (SqlReal r) = r"
| "to_double SqlNull = 0"

fun sql_add :: "sqlval \<Rightarrow> sqlval \<Rightarrow> sqlval" where
  \<comment> \<open>\<open>+\<close>: 64-bit on two integers; on overflow the sum is redone in doubles\<close>
  "sql_add SqlNull _ = SqlNull"
| "sql_add _ SqlNull = SqlNull"
| "sql_add (SqlInt a) (SqlInt b) =
     (if int64 (a + b) then SqlInt (a + b)
      else SqlReal (fl (fl (of_int a) + fl (of_int b))))"
| "sql_add x y = SqlReal (fl (to_double x + to_double y))"

fun sql_mul :: "sqlval \<Rightarrow> sqlval \<Rightarrow> sqlval" where
  "sql_mul SqlNull _ = SqlNull"
| "sql_mul _ SqlNull = SqlNull"
| "sql_mul (SqlInt a) (SqlInt b) =
     (if int64 (a * b) then SqlInt (a * b)
      else SqlReal (fl (fl (of_int a) * fl (of_int b))))"
| "sql_mul x y = SqlReal (fl (to_double x * to_double y))"

fun sql_div :: "sqlval \<Rightarrow> sqlval \<Rightarrow> sqlval" where
  \<comment> \<open>\<open>/\<close>: a zero divisor gives NULL, never an error; integer division truncates\<close>
  "sql_div SqlNull _ = SqlNull"
| "sql_div _ SqlNull = SqlNull"
| "sql_div (SqlInt a) (SqlInt b) =
     (if b = 0 then SqlNull
      else if int64 (sgn a * sgn b * (\<bar>a\<bar> div \<bar>b\<bar>)) then SqlInt (sgn a * sgn b * (\<bar>a\<bar> div \<bar>b\<bar>))
      else SqlReal (fl (fl (of_int a) / fl (of_int b))))"
| "sql_div x y =
     (if to_double y = 0 then SqlNull else SqlReal (fl (to_double x / to_double y)))"

section \<open>Tables\<close>

text \<open>
  The fifteen columns of \<open>countCSVStaging\<close>, in the order of the CSV file, and the two
  entity tables the loader splits them into. Text columns are strings; the columns
  declared \<open>INTEGER\<close> hold integers.
\<close>

record staging_row =
  st_project :: string
  st_subject :: string
  st_condition :: string
  st_age :: int
  st_sex :: string
  st_treatment :: string
  st_response :: string
  st_sample :: string
  st_sample_type :: string
  st_time_from_treatment :: int
  st_b_cell :: int
  st_cd8_t_cell :: int
  st_cd4_t_cell :: int
  st_nk_cell :: int
  st_monocyte :: int

record subject_row =
  sj_project :: string
  sj_subject :: string
  sj_condition :: string
  sj_age :: int
  sj_sex :: string
  sj_treatment :: string
  sj_response :: string

record sample_row =
  sm_subject :: string
  sm_sample :: string
  sm_sample_type :: string
  sm_time_from_treatment :: int
  sm_b_cell :: int
  sm_cd8_t_cell :: int
  sm_cd4_t_cell :: int
  sm_nk_cell :: int
  sm_monocyte :: int

section \<open>The view SampleCellFrequencies\<close>

record totals_row =
  tt_subject :: string
  tt_sample :: string
  tt_total_count :: sqlval
  tt_b_cell :: int
  tt_cd8_t_cell :: int
  tt_cd4_t_cell :: int
  tt_nk_cell :: int
  tt_monocyte :: int

record freq_row =
  fr_subject :: string
  fr_sample :: string
  fr_total_count :: sqlval
  fr_population :: string
  fr_count :: int
  fr_percentage :: sqlval

definition total_count :: "sample_row \<Rightarrow> sqlval" where
  \<comment> \<open>\<open>(b_cell + cd8_t_cell + cd4_t_cell + nk_cell + monocyte)\<close>, left to right\<close>
  "total_count s =
     sql_add (sql_add (sql_add (sql_add (SqlInt (sm_b_cell s)) (SqlInt (sm_cd8_t_cell s)))
       (SqlInt (sm_cd4_t_cell s))) (SqlInt (sm_nk_cell s))) (SqlInt (sm_monocyte s))"

definition totals :: "sample_row list \<Rightarrow> totals_row list" where
  "totals Samples = map (\<lambda>s.
     \<lparr>tt_subject = sm_subject s, tt_sample = sm_sample s, tt_total_count = total_count s,
      tt_b_cell = sm_b_cell s, tt_cd8_t_cell = sm_cd8_t_cell s,
      tt_cd4_t_cell = sm_cd4_t_cell s, tt_nk_cell = sm_nk_cell s,
      tt_monocyte = sm_monocyte s\<rparr>) Samples"

definition percentage :: "int \<Rightarrow> sqlval \<Rightarrow> sqlval" where
  \<comment> \<open>\<open>100.0 * count / total_count\<close>\<close>
  "percentage c t = sql_div (sql_mul (SqlReal 100) (SqlInt c)) t"

definition select_population :: "string \<Rightarrow> (totals_row \<Rightarrow> int) \<Rightarrow> totals_row list \<Rightarrow> freq_row list" where
  \<comment> \<open>one arm of the \<open>UNION ALL\<close>\<close>
  "select_population name col ts = map (\<lambda>t.
     \<lparr>fr_subject = tt_subject t, fr_sample = tt_sample t, fr_total_count = tt_total_count t,
      fr_population = name, fr_count = col t,
      fr_percentage = percentage (col t) (tt_total_count t)\<rparr>) ts"

definition SampleCellFrequencies :: "sample_row list \<Rightarrow> freq_row list" where
  "SampleCellFrequencies Samples = (let ts = totals Samples in
     select_population ''b_cell'' tt_b_cell ts @
     select_population ''cd8_t_cell'' tt_cd8_t_cell ts @
     select_population ''cd4_t_cell'' tt_cd4_t_cell ts @
     select_population ''nk_cell'' tt_nk_cell ts @
     select_population ''monocyte'' tt_monocyte ts)"

section \<open>Quantities the properties are stated with\<close>

text \<open>
  The exact integer sum of the five counts, the data model's condition that counts are
  non-negative, the records the view holds for one sample key, and the five
  (population, count) pairs of a sample in the order of the view's \<open>UNION ALL\<close>.
\<close>

definition exact_total :: "sample_row \<Rightarrow> int" where
  "exact_total s = sm_b_cell s + sm_cd8_t_cell s + sm_cd4_t_cell s + sm_nk_cell s + sm_monocyte s"

definition nonneg_counts :: "sample_row \<Rightarrow> bool" where
  "nonneg_counts s \<longleftrightarrow>
     0 \<le> sm_b_cell s \<and> 0 \<le> sm_cd8_t_cell s \<and> 0 \<le> sm_cd4_t_cell s \<and>
     0 \<le> sm_nk_cell s \<and> 0 \<le> sm_monocyte s"

definition population_counts :: "sample_row \<Rightarrow> (string \<times> int) list" where
  "population_counts s =
     [(''b_cell'', sm_b_cell s), (''cd8_t_cell'', sm_cd8_t_cell s),
      (''cd4_t_cell'', sm_cd4_t_cell s), (''nk_cell'', sm_nk_cell s),
      (''monocyte'', sm_monocyte s)]"

definition sample_records :: "sample_row list \<Rightarrow> string \<Rightarrow> freq_row list" where
  "sample_records Samples k = filter (\<lambda>r. fr_sample r = k) (SampleCellFrequencies Samples)"

text \<open>
  Rounding analysis: \<open>eps\<close> is the unit roundoff of binary64, \<open>approx k x y\<close> says
  that \<open>y\<close> is \<open>x\<close> up to \<open>k\<close> roundings, and \<open>tracks k S v\<close> that the SQL value
  \<open>v\<close> is the integer \<open>S\<close> exactly or a double that is \<open>S\<close> up to \<open>k\<close> roundings.
\<close>

definition eps :: rat where
  "eps = 1 / 2 ^ 53"

definition approx :: "nat \<Rightarrow> rat \<Rightarrow> rat \<Rightarrow> bool" where
  "approx k x y \<longleftrightarrow> x * (1 - eps) ^ k \<le> y \<and> y \<le> x * (1 + eps) ^ k"

definition tracks :: "nat \<Rightarrow> int \<Rightarrow> sqlval \<Rightarrow> bool" where
  "tracks k S v = (case v of SqlInt i \<Rightarrow> i = S | SqlReal r \<Rightarrow> approx k (of_int S) r | SqlNull \<Rightarrow> False)"

definition lo_factor :: rat where
  "lo_factor = (1 - eps) ^ 3 / (1 + eps) ^ 9"

definition hi_factor :: rat where
  "hi_factor = (1 + eps) ^ 3 / (1 - eps) ^ 9"

text \<open>Three sample rows used as concrete inputs.\<close>

definition sample_10 :: sample_row where
  "sample_10 = \<lparr>sm_subject = ''sbj1'', sm_sample = ''s1'', sm_sample_type = ''PBMC'',
     sm_time_from_treatment = 0, sm_b_cell = 10, sm_cd8_t_cell = 10, sm_cd4_t_cell = 10,
     sm_nk_cell = 10, sm_monocyte = 10\<rparr>"

definition sample_mixed :: sample_row where
  "sample_mixed = \<lparr>sm_subject = ''sbj1'', sm_sample = ''s2'', sm_sample_type = ''PBMC'',
     sm_time_from_treatment = 7, sm_b_cell = 1, sm_cd8_t_cell = 2, sm_cd4_t_cell = 3,
     sm_nk_cell = 4, sm_monocyte = 5\<rparr>"

definition sample_zero :: sample_row where
  "sample_zero = \<lparr>sm_subject = ''sbj2'', sm_sample = ''s3'', sm_sample_type = ''WB'',
     sm_time_from_treatment = 0, sm_b_cell = 0, sm_cd8_t_cell = 0, sm_cd4_t_cell = 0,
     sm_nk_cell = 0, sm_monocyte = 0\<rparr>"

section \<open>Part 1: the loader\<close>

text \<open>
  The persistent store: each of the three tables is absent (\<open>None\<close>) or present with its
  rows. \<open>cur.executescript\<close> first commits any pending transaction and then runs its
  statements in autocommit mode: each statement that succeeds is committed on its own,
  a statement that fails is rolled back alone, raises, and ends the script (the program
  has no handler). The outcome of a run is therefore either the final store, or the
  error together with the store as the committed statements left it.

  The rows given to the load are the records of the CSV file after its header, each
  with its fifteen fields and with integers in the columns declared \<open>INTEGER\<close>. A
  record with another number of fields makes \<open>executemany\<close> raise, and so do a missing
  or an empty file at \<open>open\<close> and \<open>next(reader)\<close>; such input is not a list of staged
  rows and lies outside this model, which starts from well-formed records.
\<close>

record store =
  tb_countCSVStaging :: "staging_row list option"
  tb_Subjects :: "subject_row list option"
  tb_Samples :: "sample_row list option"

datatype table_name = CountCSVStaging | SubjectsTable | SamplesTable

datatype sql_error =
    UniqueConstraintFailed table_name
  | ForeignKeyConstraintFailed
  | NoSuchTable table_name
  | TableAlreadyExists table_name

type_synonym statement = "store \<Rightarrow> sql_error + store"

definition fresh_store :: store where
  "fresh_store = \<lparr>tb_countCSVStaging = None, tb_Subjects = None, tb_Samples = None\<rparr>"

fun drop_table_if_exists :: "table_name \<Rightarrow> statement" where
  "drop_table_if_exists CountCSVStaging db = Inr (db\<lparr>tb_countCSVStaging := None\<rparr>)"
| "drop_table_if_exists SubjectsTable db = Inr (db\<lparr>tb_Subjects := None\<rparr>)"
| "drop_table_if_exists SamplesTable db = Inr (db\<lparr>tb_Samples := None\<rparr>)"

fun create_table :: "table_name \<Rightarrow> statement" where
  "create_table CountCSVStaging db =
     (if tb_countCSVStaging db = None then Inr (db\<lparr>tb_countCSVStaging := Some []\<rparr>)
      else Inl (TableAlreadyExists CountCSVStaging))"
| "create_table SubjectsTable db =
     (if tb_Subjects db = None then Inr (db\<lparr>tb_Subjects := Some []\<rparr>)
      else Inl (TableAlreadyExists SubjectsTable))"
| "create_table SamplesTable db =
     (if tb_Samples db = None then Inr (db\<lparr>tb_Samples := Some []\<rparr>)
      else Inl (TableAlreadyExists SamplesTable))"

definition drop_table_countCSVStaging :: statement where
  "drop_table_countCSVStaging db =
     (if tb_countCSVStaging db = None then Inl (NoSuchTable CountCSVStaging)
      else Inr (db\<lparr>tb_countCSVStaging := None\<rparr>))"

fun executescript :: "statement list \<Rightarrow> store \<Rightarrow> (sql_error \<times> store) + store" where
  "executescript [] db = Inr db"
| "executescript (st # sts) db =
     (case st db of Inl e \<Rightarrow> Inl (e, db) | Inr db' \<Rightarrow> executescript sts db')"

definition select_distinct :: "'a list \<Rightarrow> 'a list" where
  \<comment> \<open>\<open>SELECT DISTINCT\<close>: each row once, in the order of first appearance\<close>
  "select_distinct xs = rev (remdups (rev xs))"

definition subject_columns :: "staging_row \<Rightarrow> subject_row" where
  \<comment> \<open>\<open>project, subject, condition, age, sex, treatment, response\<close>\<close>
  "subject_columns r = \<lparr>sj_project = st_project r, sj_subject = st_subject r,
     sj_condition = st_condition r, sj_age = st_age r, sj_sex = st_sex r,
     sj_treatment = st_treatment r, sj_response = st_response r\<rparr>"

definition sample_columns :: "staging_row \<Rightarrow> sample_row" where
  \<comment> \<open>\<open>subject, sample, sample_type, time_from_treatment\<close> and the five counts\<close>
  "sample_columns r = \<lparr>sm_subject = st_subject r, sm_sample = st_sample r,
     sm_sample_type = st_sample_type r, sm_time_from_treatment = st_time_from_treatment r,
     sm_b_cell = st_b_cell r, sm_cd8_t_cell = st_cd8_t_cell r,
     sm_cd4_t_cell = st_cd4_t_cell r, sm_nk_cell = st_nk_cell r,
     sm_monocyte = st_monocyte r\<rparr>"

fun insert_rows :: "('a \<Rightarrow> string) \<Rightarrow> table_name \<Rightarrow> 'a list \<Rightarrow> 'a list \<Rightarrow> sql_error + 'a list" where
  \<comment> \<open>row by row; a row whose primary key is already in the table fails the statement\<close>
  "insert_rows key t tbl [] = Inr tbl"
| "insert_rows key t tbl (r # rs) =
     (if key r \<in> key ` set tbl then Inl (UniqueConstraintFailed t)
      else insert_rows key t (tbl @ [r]) rs)"

definition insert_into_staging :: "staging_row list \<Rightarrow> statement" where
  \<comment> \<open>\<open>cur.executemany("INSERT INTO countCSVStaging ...", reader)\<close> on well-formed
      records; the table has no constraints\<close>
  "insert_into_staging rows db =
     (case tb_countCSVStaging db of
        None \<Rightarrow> Inl (NoSuchTable CountCSVStaging)
      | Some t \<Rightarrow> Inr (db\<lparr>tb_countCSVStaging := Some (t @ rows)\<rparr>))"

definition insert_into_Subjects :: statement where
  "insert_into_Subjects db =
     (case tb_countCSVStaging db of
        None \<Rightarrow> Inl (NoSuchTable CountCSVStaging)
      | Some staged \<Rightarrow>
         (case tb_Subjects db of
            None \<Rightarrow> Inl (NoSuchTable SubjectsTable)
          | Some t \<Rightarrow>
             (case insert_rows sj_subject SubjectsTable t
                     (select_distinct (map subject_columns staged)) of
                Inl e \<Rightarrow> Inl e
              | Inr t' \<Rightarrow> Inr (db\<lparr>tb_Subjects := Some t'\<rparr>))))"

definition insert_into_Samples :: statement where
  \<comment> \<open>the foreign key is checked when the statement ends (foreign_keys = ON)\<close>
  "insert_into_Samples db =
     (case tb_countCSVStaging db of
        None \<Rightarrow> Inl (NoSuchTable CountCSVStaging)
      | Some staged \<Rightarrow>
         (case tb_Samples db of
            None \<Rightarrow> Inl (NoSuchTable SamplesTable)
          | Some t \<Rightarrow>
             (case tb_Subjects db of
                None \<Rightarrow> Inl (NoSuchTable SubjectsTable)
              | Some subjects \<Rightarrow>
                 (case insert_rows sm_sample SamplesTable t
                         (select_distinct (map sample_columns staged)) of
                    Inl e \<Rightarrow> Inl e
                  | Inr t' \<Rightarrow>
                      if list_all (\<lambda>r. sm_subject r \<in> sj_subject ` set subjects) t'
                      then Inr (db\<lparr>tb_Samples := Some t'\<rparr>)
                      else Inl ForeignKeyConstraintFailed))))"

definition part1_load :: "staging_row list \<Rightarrow> store \<Rightarrow> (sql_error \<times> store) + store" where
  "part1_load rows db =
     (case executescript
             [drop_table_if_exists CountCSVStaging, drop_table_if_exists SamplesTable,
              drop_table_if_exists SubjectsTable, create_table CountCSVStaging,
              create_table SubjectsTable, create_table SamplesTable] db of
        Inl f \<Rightarrow> Inl f
      | Inr db1 \<Rightarrow>
         (case insert_into_staging rows db1 of
            Inl e \<Rightarrow> Inl (e, db1)
          | Inr db2 \<Rightarrow>
              executescript [insert_into_Subjects, insert_into_Samples,
                             drop_table_countCSVStaging] db2))"

section \<open>Part 3: the cohort comparison\<close>

text \<open>
  Each of the five queries of Part 3 returns the rows \<open>(response, percentage)\<close> of the
  frequency view joined to its sample and the sample's subject, for subjects treated
  with miraclib for melanoma and PBMC samples, for one literal population name.
\<close>

type_synonym cell_df = "(string \<times> sqlval) list"

definition bCellDf :: "subject_row list \<Rightarrow> sample_row list \<Rightarrow> cell_df" where
  "bCellDf Subjects Samples =
     [(sj_response sj, fr_percentage f).
        f \<leftarrow> SampleCellFrequencies Samples,
        sm \<leftarrow> Samples, sm_sample sm = fr_sample f,
        sj \<leftarrow> Subjects, sj_subject sj = sm_subject sm,
        sj_treatment sj = ''miraclib'' \<and> sj_condition sj = ''melanoma'' \<and>
        sm_sample_type sm = ''PBMC'' \<and> fr_population f = ''b_cell'']"

definition cd8CellDf :: "subject_row list \<Rightarrow> sample_row list \<Rightarrow> cell_df" where
  "cd8CellDf Subjects Samples =
     [(sj_response sj, fr_percentage f).
        f \<leftarrow> SampleCellFrequencies Samples,
        sm \<leftarrow> Samples, sm_sample sm = fr_sample f,
        sj \<leftarrow> Subjects, sj_subject sj = sm_subject sm,
        sj_treatment sj = ''miraclib'' \<and> sj_condition sj = ''melanoma'' \<and>
        sm_sample_type sm = ''PBMC'' \<and> fr_population f = ''cd8_t_cell'']"

definition cd4CellDf :: "subject_row list \<Rightarrow> sample_row list \<Rightarrow> cell_df" where
  "cd4CellDf Subjects Samples =
     [(sj_response sj, fr_percentage f).
        f \<leftarrow> SampleCellFrequencies Samples,
        sm \<leftarrow> Samples, sm_sample sm = fr_sample f,
        sj \<leftarrow> Subjects, sj_subject sj = sm_subject sm,
        sj_treatment sj = ''miraclib'' \<and> sj_condition sj = ''melanoma'' \<and>
        sm_sample_type sm = ''PBMC'' \<and> fr_population f = ''cd4_t_cell'']"

definition nkCellDf :: "subject_row list \<Rightarrow> sample_row list \<Rightarrow> cell_df" where
  "nkCellDf Subjects Samples =
     [(sj_response sj, fr_percentage f).
        f \<leftarrow> SampleCellFrequencies Samples,
        sm \<leftarrow> Samples, sm_sample sm = fr_sample f,
        sj \<leftarrow> Subjects, sj_subject sj = sm_subject sm,
        sj_treatment sj = ''miraclib'' \<and> sj_condition sj = ''melanoma'' \<and>
        sm_sample_type sm = ''PBMC'' \<and> fr_population f = ''nk_cell'']"

definition monocyteCellDf :: "subject_row list \<Rightarrow> sample_row list \<Rightarrow> cell_df" where
  "monocyteCellDf Subjects Samples =
     [(sj_response sj, fr_percentage f).
        f \<leftarrow> SampleCellFrequencies Samples,
        sm \<leftarrow> Samples, sm_sample sm = fr_sample f,
        sj \<leftarrow> Subjects, sj_subject sj = sm_subject sm,
        sj_treatment sj = ''miraclib'' \<and> sj_condition sj = ''melanoma'' \<and>
        sm_sample_type sm = ''PBMC'' \<and> fr_population f = ''monocyte'']"

definition dfs :: "subject_row list \<Rightarrow> sample_row list \<Rightarrow> (string \<times> cell_df) list" where
  "dfs Subjects Samples =
     [(''B Cell'', bCellDf Subjects Samples),
      (''CD8 T Cell'', cd8CellDf Subjects Samples),
      (''CD4 T Cell'', cd4CellDf Subjects Samples),
      (''NK Cell'', nkCellDf Subjects Samples),
      (''Monocyte'', monocyteCellDf Subjects Samples)]"

definition responders :: "cell_df \<Rightarrow> sqlval list" where
  \<comment> \<open>\<open>df.loc[df['response'] == 'yes', "percentage"]\<close>\<close>
  "responders df = map snd (filter (\<lambda>row. fst row = ''yes'') df)"

definition nonresponders :: "cell_df \<Rightarrow> sqlval list" where
  \<comment> \<open>\<open>df.loc[df['response'] == 'no', "percentage"]\<close>\<close>
  "nonresponders df = map snd (filter (\<lambda>row. fst row = ''no'') df)"

text \<open>
  \<open>scipy.stats.ttest_ind(\<cdot>, \<cdot>, equal_var=True)\<close> is a library routine; it is a
  parameter \<open>ttest_ind\<close> of the loops that call it, which returns a result or raises.
  The loops have no exception handler: a raise ends the loop, and what was reported
  before it stays reported.
\<close>

datatype 'e py_exception = KeyError string | Raised 'e

fun part3_loop ::
  "(sqlval list \<Rightarrow> sqlval list \<Rightarrow> 'e + 'r) \<Rightarrow> (string \<times> cell_df) list
     \<Rightarrow> (string \<times> 'r) list \<times> 'e py_exception option" where
  "part3_loop ttest_ind [] = ([], None)"
| "part3_loop ttest_ind ((name, df) # rest) =
     (case ttest_ind (responders df) (nonresponders df) of
        Inl e \<Rightarrow> ([], Some (Raised e))
      | Inr result \<Rightarrow>
          (case part3_loop ttest_ind rest of (out, err) \<Rightarrow> ((name, result) # out, err)))"

definition part3_statistics ::
  "(sqlval list \<Rightarrow> sqlval list \<Rightarrow> 'e + 'r) \<Rightarrow> subject_row list \<Rightarrow> sample_row list
     \<Rightarrow> (string \<times> 'r) list \<times> 'e py_exception option" where
  "part3_statistics ttest_ind Subjects Samples = part3_loop ttest_ind (dfs Subjects Samples)"

section \<open>The dashboard's statistics\<close>

definition get_cell_data :: "string \<Rightarrow> subject_row list \<Rightarrow> sample_row list \<Rightarrow> cell_df" where
  "get_cell_data population Subjects Samples =
     [(sj_response sj, fr_percentage f).
        f \<leftarrow> SampleCellFrequencies Samples,
        sm \<leftarrow> Samples, sm_sample sm = fr_sample f,
        sj \<leftarrow> Subjects, sj_subject sj = sm_subject sm,
        sj_treatment sj = ''miraclib'' \<and> sj_condition sj = ''melanoma'' \<and>
        sm_sample_type sm = ''PBMC'' \<and> fr_population f = population]"

definition populations :: "string list" where
  "populations = [''b_cell'', ''cd8_t_cell'', ''cd4_t_cell'', ''nk_cell'', ''monocyte'']"

definition population_names :: "(string \<times> string) list" where
  "population_names =
     [(''b_cell'', ''B Cell''), (''cd8_t_cell'', ''CD8 T Cell''),
      (''cd4_t_cell'', ''CD4 T Cell''), (''nk_cell'', ''NK Cell''),
      (''monocyte'', ''Monocyte'')]"

definition cell_data :: "subject_row list \<Rightarrow> sample_row list \<Rightarrow> (string \<times> cell_df) list" where
  \<comment> \<open>\<open>{pop: get_cell_data(pop) for pop in populations}\<close>\<close>
  "cell_data Subjects Samples = map (\<lambda>pop. (pop, get_cell_data pop Subjects Samples)) populations"

fun stats_results_loop ::
  "(sqlval list \<Rightarrow> sqlval list \<Rightarrow> 'e + 'r) \<Rightarrow> (string \<times> cell_df) list \<Rightarrow> string list
     \<Rightarrow> (string \<times> 'r) list \<times> 'e py_exception option" where
  \<comment> \<open>the values of \<open>t_stat, p_value\<close> in each round, before \<open>round\<close> is applied to them\<close>
  "stats_results_loop ttest_ind cd [] = ([], None)"
| "stats_results_loop ttest_ind cd (pop # pops) =
     (case map_of cd pop of
        None \<Rightarrow> ([], Some (KeyError pop))
      | Some df \<Rightarrow>
         (case ttest_ind (responders df) (nonresponders df) of
            Inl e \<Rightarrow> ([], Some (Raised e))
          | Inr result \<Rightarrow>
             (case map_of population_names pop of
                None \<Rightarrow> ([], Some (KeyError pop))
              | Some name \<Rightarrow>
                 (case stats_results_loop ttest_ind cd pops of
                    (out, err) \<Rightarrow> ((name, result) # out, err)))))"

definition dashboard_statistics ::
  "(sqlval list \<Rightarrow> sqlval list \<Rightarrow> 'e + 'r) \<Rightarrow> subject_row list \<Rightarrow> sample_row list
     \<Rightarrow> (string \<times> 'r) list \<times> 'e py_exception option" where
  "dashboard_statistics ttest_ind Subjects Samples =
     stats_results_loop ttest_ind (cell_data Subjects Samples) populations"

section \<open>Part 4: the baseline subset report\<close>

definition filter_condition :: "subject_row \<Rightarrow> sample_row \<Rightarrow> bool" where
  "filter_condition sj sm \<longleftrightarrow>
     sj_treatment sj = ''miraclib'' \<and> sj_condition sj = ''melanoma'' \<and>
     sm_sample_type sm = ''PBMC'' \<and> sm_time_from_treatment sm = 0"

definition query1 ::
  "subject_row list \<Rightarrow> sample_row list \<Rightarrow> (string \<times> string \<times> string \<times> string \<times> string) list" where
  \<comment> \<open>sample, subject, project, response, sex; \<open>ORDER BY Samples.sample\<close>\<close>
  "query1 Subjects Samples = sort_key fst
     [(sm_sample sm, sj_subject sj, sj_project sj, sj_response sj, sj_sex sj).
        sm \<leftarrow> Samples, sj \<leftarrow> Subjects, sj_subject sj = sm_subject sm,
        filter_condition sj sm]"

definition query2 :: "subject_row list \<Rightarrow> sample_row list \<Rightarrow> (string \<times> nat) list" where
  \<comment> \<open>\<open>COUNT(Samples.sample) ... GROUP BY Subjects.project\<close>\<close>
  "query2 Subjects Samples =
     (let rows = [(sj_project sj, sm_sample sm).
                    sm \<leftarrow> Samples, sj \<leftarrow> Subjects, sj_subject sj = sm_subject sm,
                    filter_condition sj sm]
      in map (\<lambda>g. (g, length (filter (\<lambda>row. fst row = g) rows)))
           (sort (remdups (map fst rows))))"

definition query3 :: "subject_row list \<Rightarrow> sample_row list \<Rightarrow> (string \<times> nat) list" where
  \<comment> \<open>\<open>COUNT(DISTINCT Subjects.subject) ... GROUP BY Subjects.response\<close>\<close>
  "query3 Subjects Samples =
     (let rows = [(sj_response sj, sj_subject sj).
                    sm \<leftarrow> Samples, sj \<leftarrow> Subjects, sj_subject sj = sm_subject sm,
                    filter_condition sj sm]
      in map (\<lambda>g. (g, length (remdups (map snd (filter (\<lambda>row. fst row = g) rows)))))
           (sort (remdups (map fst rows))))"

definition query4 :: "subject_row list \<Rightarrow> sample_row list \<Rightarrow> (string \<times> nat) list" where
  \<comment> \<open>\<open>COUNT(DISTINCT Subjects.subject) ... GROUP BY Subjects.sex\<close>\<close>
  "query4 Subjects Samples =
     (let rows = [(sj_sex sj, sj_subject sj).
                    sm \<leftarrow> Samples, sj \<leftarrow> Subjects, sj_subject sj = sm_subject sm,
                    filter_condition sj sm]
      in map (\<lambda>g. (g, length (remdups (map snd (filter (\<lambda>row. fst row = g) rows)))))
           (sort (remdups (map fst rows))))"

definition cohort_matches :: "subject_row list \<Rightarrow> sample_row list \<Rightarrow> bool" where
  \<comment> \<open>some sample joined to its subject satisfies the baseline filter\<close>
  "cohort_matches Subjects Samples \<longleftrightarrow>
     list_ex (\<lambda>sm. list_ex (\<lambda>sj. sj_subject sj = sm_subject sm \<and> filter_condition sj sm)
        Subjects) Samples"

section \<open>Further quantities and concrete inputs\<close>

text \<open>
  The rows the two \<open>INSERT ... SELECT DISTINCT\<close> statements take from the staged rows,
  the store right after the tables are recreated, whether any joined row passes the
  baseline filter, and the staged rows, subjects, samples and stores used as concrete
  inputs.
\<close>

definition row1 :: staging_row where
  "row1 = \<lparr>st_project = ''prj1'', st_subject = ''sbj1'', st_condition = ''melanoma'',
     st_age = 70, st_sex = ''F'', st_treatment = ''miraclib'', st_response = ''yes'',
     st_sample = ''s1'', st_sample_type = ''PBMC'', st_time_from_treatment = 0,
     st_b_cell = 10, st_cd8_t_cell = 10, st_cd4_t_cell = 10, st_nk_cell = 10,
     st_monocyte = 10\<rparr>"

definition empty_tables :: store where
  "empty_tables = \<lparr>tb_countCSVStaging = Some [], tb_Subjects = Some [], tb_Samples = Some []\<rparr>"

definition staged_subjects :: "staging_row list \<Rightarrow> subject_row list" where
  "staged_subjects rows = select_distinct (map subject_columns rows)"

definition staged_samples :: "staging_row list \<Rightarrow> sample_row list" where
  "staged_samples rows = select_distinct (map sample_columns rows)"

definition row1_recount :: staging_row where
  "row1_recount = row1\<lparr>st_b_cell := 11\<rparr>"

definition row2_age :: staging_row where
  "row2_age = row1\<lparr>st_sample := ''s2'', st_age := 71\<rparr>"

definition row2 :: staging_row where
  "row2 = row1\<lparr>st_sample := ''s2'', st_time_from_treatment := 7\<rparr>"

definition loaded_store :: store where
  "loaded_store = \<lparr>tb_countCSVStaging = None,
     tb_Subjects = Some [subject_columns row1],
     tb_Samples = Some [sample_columns row1, sample_columns row2]\<rparr>"

definition subject_yes :: subject_row where
  "subject_yes = \<lparr>sj_project = ''prj1'', sj_subject = ''sbj1'', sj_condition = ''melanoma'',
     sj_age = 70, sj_sex = ''F'', sj_treatment = ''miraclib'', sj_response = ''yes''\<rparr>"

definition subject_no :: subject_row where
  "subject_no = \<lparr>sj_project = ''prj1'', sj_subject = ''sbj3'', sj_condition = ''melanoma'',
     sj_age = 61, sj_sex = ''M'', sj_treatment = ''miraclib'', sj_response = ''no''\<rparr>"

definition sample_no :: sample_row where
  "sample_no = \<lparr>sm_subject = ''sbj3'', sm_sample = ''s4'', sm_sample_type = ''PBMC'',
     sm_time_from_treatment = 0, sm_b_cell = 7, sm_cd8_t_cell = 3, sm_cd4_t_cell = 20,
     sm_nk_cell = 6, sm_monocyte = 4\<rparr>"

definition subject_other :: subject_row where
  "subject_other = \<lparr>sj_project = ''prj2'', sj_subject = ''sbj2'', sj_condition = ''carcinoma'',
     sj_age = 52, sj_sex = ''M'', sj_treatment = ''phauximab'', sj_response = ''no''\<rparr>"

section \<open>Rounding to binary64\<close>

lemma rne_error: "\<bar>of_int (rne y) - y\<bar> \<le> 1 / 2"
proof -
  have "of_int \<lfloor>y\<rfloor> \<le> y" "y < of_int \<lfloor>y\<rfloor> + 1" by linarith+
  then show ?thesis
    by (auto simp: rne_def Let_def)
qed

lemma expo_lower:
  assumes "x \<noteq> 0"
  shows "2 powi (expo x) \<le> \<bar>x\<bar>"
proof (cases "1 \<le> \<bar>x\<bar>")
  case True
  define n where "n = nat \<lfloor>\<bar>x\<bar>\<rfloor>"
  have "1 \<le> \<lfloor>\<bar>x\<bar>\<rfloor>" using True by (simp add: le_floor_iff)
  then have n1: "1 \<le> n" unfolding n_def by linarith
  have fpos: "0 < floorlog 2 n" using n1 by (simp add: floorlog_def)
  have "expo x = int (floorlog 2 n) - 1"
    using True by (simp add: expo_def n_def Let_def)
  then have e: "expo x = int (floorlog 2 n - 1)"
    using fpos by linarith
  have "2 ^ (floorlog 2 n - 1) \<le> n" using floorlog_bounds[of n 2] n1 by simp
  then have "(of_nat (2 ^ (floorlog 2 n - 1)) :: rat) \<le> of_nat n"
    by (simp only: of_nat_le_iff)
  then have "(2::rat) ^ (floorlog 2 n - 1) \<le> of_nat n"
    by simp
  also have "(of_nat n :: rat) = of_int \<lfloor>\<bar>x\<bar>\<rfloor>"
    by (simp add: n_def)
  also have "\<dots> \<le> \<bar>x\<bar>" by linarith
  finally show ?thesis by (simp add: e)
next
  case False
  define a where "a = \<bar>x\<bar>"
  have a: "0 < a" "a < 1" using False assms by (simp_all add: a_def)
  define m where "m = \<lceil>1 / a\<rceil>"
  define k where "k = floorlog 2 (nat (m - 1))"
  have "1 < 1 / a" using a by simp
  then have m2: "2 \<le> m" unfolding m_def by linarith
  have e: "expo x = - int k"
    using False by (simp add: expo_def Let_def k_def m_def a_def)
  have "nat (m - 1) < 2 ^ k"
    using floorlog_bounds[of "nat (m - 1)" 2] m2 by (simp add: k_def)
  then have "int (nat (m - 1)) < int (2 ^ k)"
    by (simp only: of_nat_less_iff)
  then have "m - 1 < 2 ^ k" using m2 by simp
  then have "m \<le> 2 ^ k" by simp
  then have "(of_int m :: rat) \<le> of_int (2 ^ k)"
    by (simp only: of_int_le_iff)
  then have "(of_int m :: rat) \<le> 2 ^ k"
    by simp
  moreover have "1 / a \<le> of_int m" unfolding m_def by linarith
  ultimately have "1 / a \<le> 2 ^ k" by linarith
  then have "1 / 2 ^ k \<le> a" using a
    by (simp add: field_simps)
  then show ?thesis by (simp add: e a_def power_int_minus_divide)
qed

lemma expo_upper:
  assumes "x \<noteq> 0"
  shows "\<bar>x\<bar> < 2 powi (expo x + 1)"
proof (cases "1 \<le> \<bar>x\<bar>")
  case True
  define n where "n = nat \<lfloor>\<bar>x\<bar>\<rfloor>"
  have "1 \<le> \<lfloor>\<bar>x\<bar>\<rfloor>" using True by (simp add: le_floor_iff)
  then have n1: "1 \<le> n" unfolding n_def by linarith
  have e: "expo x + 1 = int (floorlog 2 n)"
    using True by (simp add: expo_def n_def Let_def)
  have "n < 2 ^ floorlog 2 n" using floorlog_bounds[of n 2] n1 by simp
  then have "int n + 1 \<le> 2 ^ floorlog 2 n"
    by (metis of_nat_less_iff of_nat_numeral of_nat_power zless_imp_add1_zle)
  then have "(of_int (int n + 1) :: rat) \<le> of_int (2 ^ floorlog 2 n)"
    by (simp only: of_int_le_iff)
  then have "(of_int (int n) :: rat) + 1 \<le> 2 ^ floorlog 2 n" by simp
  moreover have "int n = \<lfloor>\<bar>x\<bar>\<rfloor>" using n1 by (simp add: n_def)
  moreover have "\<bar>x\<bar> < of_int \<lfloor>\<bar>x\<bar>\<rfloor> + 1" by linarith
  ultimately have "\<bar>x\<bar> < 2 ^ floorlog 2 n" by simp
  then show ?thesis by (simp add: e)
next
  case False
  define a where "a = \<bar>x\<bar>"
  have a: "0 < a" "a < 1" using False assms by (simp_all add: a_def)
  define m where "m = \<lceil>1 / a\<rceil>"
  define k where "k = floorlog 2 (nat (m - 1))"
  have "1 < 1 / a" using a by simp
  then have m2: "2 \<le> m" unfolding m_def by linarith
  have kpos: "0 < k" using m2 by (simp add: k_def floorlog_def)
  have "expo x = - int k"
    using False by (simp add: expo_def Let_def k_def m_def a_def)
  then have e: "expo x + 1 = - int (k - 1)" using kpos by linarith
  have "2 ^ (k - 1) \<le> nat (m - 1)"
    using floorlog_bounds[of "nat (m - 1)" 2] m2 by (simp add: k_def)
  then have "int (2 ^ (k - 1)) \<le> int (nat (m - 1))"
    by (simp only: of_nat_le_iff)
  then have "2 ^ (k - 1) \<le> m - 1" using m2 by simp
  then have "(of_int (2 ^ (k - 1)) :: rat) \<le> of_int (m - 1)"
    by (simp only: of_int_le_iff)
  then have "(2::rat) ^ (k - 1) \<le> of_int m - 1" by simp
  moreover have "of_int m - 1 < 1 / a" unfolding m_def by linarith
  ultimately have "(2::rat) ^ (k - 1) < 1 / a" by linarith
  then have "a < 1 / 2 ^ (k - 1)" using a
    by (simp add: field_simps)
  then show ?thesis by (simp add: e a_def power_int_minus_divide)
qed

lemma fl_error: "\<bar>fl x - x\<bar> \<le> \<bar>x\<bar> / 2 ^ 53"
proof (cases "x = 0")
  case True
  then show ?thesis by (simp add: fl_def)
next
  case False
  define q :: rat where "q = 2 powi (expo x - 52)"
  have qpos: "0 < q" by (simp add: q_def)
  have q2: "q = 2 powi (expo x) / 2 ^ 52"
    by (simp add: q_def power_int_diff)
  have "fl x - x = q * (of_int (rne (x / q)) - x / q)"
    using False qpos by (simp add: fl_def q_def[symmetric] Let_def field_simps)
  then have "\<bar>fl x - x\<bar> = q * \<bar>of_int (rne (x / q)) - x / q\<bar>"
    using qpos by (simp add: abs_mult)
  also have "\<dots> \<le> q * (1 / 2)"
    using rne_error[of "x / q"] qpos by (intro mult_left_mono) simp_all
  also have "\<dots> = 2 powi (expo x) / 2 ^ 53" by (simp add: q2)
  also have "\<dots> \<le> \<bar>x\<bar> / 2 ^ 53"
    using expo_lower[OF False] by (simp add: divide_right_mono)
  finally show ?thesis .
qed

lemma eps_bounds: "0 < eps" "eps < 1"
  by (simp_all add: eps_def)

lemma fl_bounds:
  assumes "0 \<le> y"
  shows "y * (1 - eps) \<le> fl y" and "fl y \<le> y * (1 + eps)"
proof -
  have "\<bar>fl y - y\<bar> \<le> y * eps"
    using fl_error[of y] assms by (simp add: eps_def)
  then show "y * (1 - eps) \<le> fl y" and "fl y \<le> y * (1 + eps)"
    by (simp_all add: algebra_simps)
qed

lemma approx_exact: "approx 0 x x"
  by (simp add: approx_def)

lemma approx_nonneg: "0 \<le> x \<Longrightarrow> approx k x y \<Longrightarrow> 0 \<le> y"
proof -
  assume x: "0 \<le> x" and a: "approx k x y"
  have "0 \<le> x * (1 - eps) ^ k" using x eps_bounds by simp
  then show "0 \<le> y" using a by (simp add: approx_def)
qed

lemma approx_pos: "0 < x \<Longrightarrow> approx k x y \<Longrightarrow> 0 < y"
proof -
  assume x: "0 < x" and a: "approx k x y"
  have "0 < x * (1 - eps) ^ k" using x eps_bounds by simp
  then show "0 < y" using a by (simp add: approx_def)
qed

lemma approx_fl:
  assumes x: "0 \<le> x" and a: "approx k x y"
  shows "approx (Suc k) x (fl y)"
proof -
  have y: "0 \<le> y" using approx_nonneg[OF x a] .
  have "x * (1 - eps) ^ k * (1 - eps) \<le> y * (1 - eps)"
    using a eps_bounds by (intro mult_right_mono) (simp_all add: approx_def)
  moreover have "y * (1 + eps) \<le> x * (1 + eps) ^ k * (1 + eps)"
    using a eps_bounds by (intro mult_right_mono) (simp_all add: approx_def)
  ultimately show ?thesis
    using fl_bounds[OF y] unfolding approx_def power_Suc2 by linarith
qed

lemma approx_mono:
  assumes x: "0 \<le> x" and k: "k \<le> k'" and a: "approx k x y"
  shows "approx k' x y"
proof -
  have "(1 - eps) ^ k' \<le> (1 - eps) ^ k"
    using eps_bounds k by (intro power_decreasing) simp_all
  then have "x * (1 - eps) ^ k' \<le> x * (1 - eps) ^ k"
    using x by (rule mult_left_mono)
  moreover have "(1 + eps) ^ k \<le> (1 + eps) ^ k'"
    using eps_bounds k by (intro power_increasing) simp_all
  then have "x * (1 + eps) ^ k \<le> x * (1 + eps) ^ k'"
    using x by (rule mult_left_mono)
  ultimately show ?thesis using a by (simp add: approx_def)
qed

lemma approx_add: "approx k x y \<Longrightarrow> approx k x' y' \<Longrightarrow> approx k (x + x') (y + y')"
  by (simp add: approx_def algebra_simps)

lemma approx_cmult: "0 \<le> c \<Longrightarrow> approx k x y \<Longrightarrow> approx k (c * x) (c * y)"
  by (simp add: approx_def mult.assoc mult_left_mono)

lemma approx_divide:
  assumes x: "0 \<le> x" and t: "0 < t" and a: "approx k x y" and b: "approx j t d"
  shows "x / t * ((1 - eps) ^ k / (1 + eps) ^ j) \<le> y / d"
    and "y / d \<le> x / t * ((1 + eps) ^ k / (1 - eps) ^ j)"
proof -
  have d: "0 < d" using approx_pos[OF t b] .
  have y: "0 \<le> y" using approx_nonneg[OF x a] .
  have lo: "0 < (1 - eps) ^ j" and hi: "0 < (1 + eps) ^ j" using eps_bounds by simp_all
  have dl: "t * (1 - eps) ^ j \<le> d" and dh: "d \<le> t * (1 + eps) ^ j"
    using b by (simp_all add: approx_def)
  have yl: "x * (1 - eps) ^ k \<le> y" and yh: "y \<le> x * (1 + eps) ^ k"
    using a by (simp_all add: approx_def)
  have "x * (1 - eps) ^ k / (t * (1 + eps) ^ j) \<le> y / (t * (1 + eps) ^ j)"
    using yl t hi by (intro divide_right_mono) simp_all
  also have "\<dots> \<le> y / d"
    using dh d y by (intro divide_left_mono) simp_all
  finally show "x / t * ((1 - eps) ^ k / (1 + eps) ^ j) \<le> y / d" by simp
  have "y / d \<le> y / (t * (1 - eps) ^ j)"
    using dl t lo y d by (intro divide_left_mono) simp_all
  also have "\<dots> \<le> x * (1 + eps) ^ k / (t * (1 - eps) ^ j)"
    using yh t lo by (intro divide_right_mono) simp_all
  finally show "y / d \<le> x / t * ((1 + eps) ^ k / (1 - eps) ^ j)" by simp
qed

section \<open>The total and the percentages of one sample\<close>

lemma approx_fl_int: "0 \<le> c \<Longrightarrow> approx 1 (of_int c) (fl (of_int c))"
  using approx_fl[OF _ approx_exact, of "of_int c"] by simp

lemma tracks_add_step:
  assumes S: "0 \<le> S" and c: "0 \<le> c" and t: "tracks k S v"
  shows "tracks (k + 2) (S + c) (sql_add v (SqlInt c))"
proof (cases v)
  case SqlNull
  then show ?thesis using t by (simp add: tracks_def)
next
  case (SqlInt i)
  then have i: "i = S" using t by (simp add: tracks_def)
  show ?thesis
  proof (cases "int64 (S + c)")
    case True
    then show ?thesis using SqlInt i by (simp add: tracks_def)
  next
    case False
    have "approx 1 (of_int S + of_int c) (fl (of_int S) + fl (of_int c))"
      using approx_add[OF approx_fl_int[OF S] approx_fl_int[OF c]] .
    moreover have nn: "(0::rat) \<le> of_int S + of_int c" using S c by simp
    ultimately have a2: "approx (Suc 1) (of_int S + of_int c) (fl (fl (of_int S) + fl (of_int c)))"
      by (simp only: approx_fl)
    have "approx (k + 2) (of_int S + of_int c) (fl (fl (of_int S) + fl (of_int c)))"
      by (rule approx_mono[OF nn _ a2]) simp
    then show ?thesis using SqlInt i False by (simp add: tracks_def)
  qed
next
  case (SqlReal r)
  then have r: "approx k (of_int S) r" using t by (simp add: tracks_def)
  have r1: "approx (k + 1) (of_int S) r"
    by (rule approx_mono[OF _ _ r]) (simp_all add: S)
  have c1: "approx (k + 1) (of_int c) (fl (of_int c))"
    by (rule approx_mono[OF _ _ approx_fl_int[OF c]]) (simp_all add: c)
  have "approx (Suc (k + 1)) (of_int S + of_int c) (fl (r + fl (of_int c)))"
    by (rule approx_fl[OF _ approx_add[OF r1 c1]]) (simp add: S c)
  then show ?thesis using SqlReal by (simp add: tracks_def)
qed

lemma tracks_add:
  "0 \<le> S \<Longrightarrow> 0 \<le> c \<Longrightarrow> tracks k S v \<Longrightarrow> k' = k + 2 \<Longrightarrow>
     tracks k' (S + c) (sql_add v (SqlInt c))"
  using tracks_add_step by blast

lemma tracks_total_count:
  assumes "nonneg_counts s"
  shows "tracks 8 (exact_total s) (total_count s)"
proof -
  let ?b = "sm_b_cell s" and ?c8 = "sm_cd8_t_cell s" and ?c4 = "sm_cd4_t_cell s"
  let ?nk = "sm_nk_cell s" and ?mo = "sm_monocyte s"
  have nn: "0 \<le> ?b" "0 \<le> ?c8" "0 \<le> ?c4" "0 \<le> ?nk" "0 \<le> ?mo"
    using assms by (simp_all add: nonneg_counts_def)
  have t0: "tracks 0 ?b (SqlInt ?b)" by (simp add: tracks_def)
  have t1: "tracks 2 (?b + ?c8) (sql_add (SqlInt ?b) (SqlInt ?c8))"
    by (rule tracks_add[OF nn(1) nn(2) t0]) simp
  have t2: "tracks 4 (?b + ?c8 + ?c4) (sql_add (sql_add (SqlInt ?b) (SqlInt ?c8)) (SqlInt ?c4))"
    by (rule tracks_add[OF _ nn(3) t1]) (simp_all add: nn)
  have t3: "tracks 6 (?b + ?c8 + ?c4 + ?nk)
      (sql_add (sql_add (sql_add (SqlInt ?b) (SqlInt ?c8)) (SqlInt ?c4)) (SqlInt ?nk))"
    by (rule tracks_add[OF _ nn(4) t2]) (simp_all add: nn)
  have t4: "tracks 8 (?b + ?c8 + ?c4 + ?nk + ?mo)
      (sql_add (sql_add (sql_add (sql_add (SqlInt ?b) (SqlInt ?c8)) (SqlInt ?c4)) (SqlInt ?nk)) (SqlInt ?mo))"
    by (rule tracks_add[OF _ nn(5) t3]) (simp_all add: nn)
  then show ?thesis unfolding exact_total_def total_count_def .
qed

lemma tracks_to_double:
  assumes S: "0 \<le> S" and t: "tracks 8 S v"
  shows "approx 9 (of_int S) (to_double v)"
proof (cases v)
  case SqlNull
  then show ?thesis using t by (simp add: tracks_def)
next
  case (SqlInt i)
  then have "i = S" using t by (simp add: tracks_def)
  then show ?thesis using SqlInt S approx_mono[OF _ _ approx_fl_int[OF S], of 9] by simp
next
  case (SqlReal r)
  then have "approx 8 (of_int S) r" using t by (simp add: tracks_def)
  then show ?thesis using SqlReal S approx_mono[of "of_int S" 8 9 r] by simp
qed

lemma tracks_not_null: "tracks k S v \<Longrightarrow> v \<noteq> SqlNull"
  by (auto simp: tracks_def)

lemma factor_numeric:
  "100 - 1 / 10 ^ 6 \<le> 100 * lo_factor" "100 * hi_factor \<le> 100 + 1 / 10 ^ 6"
  by (simp_all add: lo_factor_def hi_factor_def eps_def power_divide)

lemma sql_div_real:
  "v \<noteq> SqlNull \<Longrightarrow> sql_div (SqlReal x) v =
     (if to_double v = 0 then SqlNull else SqlReal (fl (x / to_double v)))"
  by (cases v) simp_all

lemma percentage_bounds:
  assumes c: "0 \<le> c" and S: "0 < S" and v: "v \<noteq> SqlNull"
    and d: "approx 9 (of_int S) (to_double v)"
  shows "\<exists>p. percentage c v = SqlReal p \<and>
           100 * of_int c / of_int S * lo_factor \<le> p \<and>
           p \<le> 100 * of_int c / of_int S * hi_factor"
proof -
  define y where "y = fl (100 * fl (of_int c))"
  define q where "q = y / to_double v"
  have Sr: "(0::rat) < of_int S" using S by simp
  have dpos: "0 < to_double v" using approx_pos[OF Sr d] .
  have X: "(0::rat) \<le> 100 * of_int c" using c by simp
  have "approx 1 (100 * of_int c) (100 * fl (of_int c))"
    by (rule approx_cmult[OF _ approx_fl_int[OF c]]) simp
  then have y: "approx 2 (100 * of_int c) y"
    using approx_fl[OF X, of 1 "100 * fl (of_int c)"] by (simp add: y_def numeral_2_eq_2)
  have q1: "100 * of_int c / of_int S * ((1 - eps) ^ 2 / (1 + eps) ^ 9) \<le> q"
    and q2: "q \<le> 100 * of_int c / of_int S * ((1 + eps) ^ 2 / (1 - eps) ^ 9)"
    using approx_divide[OF X Sr y d] by (simp_all add: q_def)
  have qnn: "0 \<le> q" using approx_nonneg[OF X y] dpos by (simp add: q_def)
  have e1: "0 \<le> 1 - eps" "0 \<le> 1 + eps" using eps_bounds by simp_all
  have eq1: "(1 - eps) ^ 2 / (1 + eps) ^ 9 * (1 - eps) = lo_factor"
    by (simp add: lo_factor_def power3_eq_cube power2_eq_square)
  have eq2: "(1 + eps) ^ 2 / (1 - eps) ^ 9 * (1 + eps) = hi_factor"
    by (simp add: hi_factor_def power3_eq_cube power2_eq_square)
  have "100 * of_int c / of_int S * ((1 - eps) ^ 2 / (1 + eps) ^ 9) * (1 - eps) \<le> q * (1 - eps)"
    by (rule mult_right_mono[OF q1 e1(1)])
  then have "100 * of_int c / of_int S * lo_factor \<le> q * (1 - eps)"
    by (simp only: mult.assoc eq1)
  then have l: "100 * of_int c / of_int S * lo_factor \<le> fl q"
    using fl_bounds(1)[OF qnn] by linarith
  have "q * (1 + eps) \<le> 100 * of_int c / of_int S * ((1 + eps) ^ 2 / (1 - eps) ^ 9) * (1 + eps)"
    by (rule mult_right_mono[OF q2 e1(2)])
  then have "q * (1 + eps) \<le> 100 * of_int c / of_int S * hi_factor"
    by (simp only: mult.assoc eq2)
  then have h: "fl q \<le> 100 * of_int c / of_int S * hi_factor"
    using fl_bounds(2)[OF qnn] by linarith
  have "percentage c v = SqlReal (fl q)"
    using dpos v by (simp add: percentage_def sql_div_real q_def y_def)
  then show ?thesis using l h by blast
qed

lemma factor_tight:
  "1 - 1 / 10 ^ 14 \<le> lo_factor" "hi_factor \<le> 1 + 1 / 10 ^ 14"
  by (simp_all add: lo_factor_def hi_factor_def eps_def power_divide)

lemma filter_key_unique:
  "distinct (map f xs) \<Longrightarrow> x \<in> set xs \<Longrightarrow> filter (\<lambda>y. f y = f x) xs = [x]"
proof (induction xs)
  case Nil
  then show ?case by simp
next
  case (Cons a xs)
  show ?case
  proof (cases "a = x")
    case True
    have "f x \<notin> f ` set xs" using Cons.prems(1) True by simp
    then have "\<forall>y \<in> set xs. f y \<noteq> f x" by (metis imageI)
    then have "filter (\<lambda>y. f y = f x) xs = []" by (simp add: filter_empty_conv)
    then show ?thesis using True by simp
  next
    case False
    then have x: "x \<in> set xs" using Cons.prems(2) by simp
    then have "f a \<noteq> f x" using Cons.prems(1) by (metis distinct.simps(2) imageI list.simps(9) set_map)
    then show ?thesis using Cons.IH x Cons.prems(1) by simp
  qed
qed

lemma sample_records_single:
  assumes "distinct (map sm_sample Samples)" and "s \<in> set Samples"
  shows "sample_records Samples (sm_sample s) = SampleCellFrequencies [s]"
proof -
  have "filter (\<lambda>x. sm_sample x = sm_sample s) Samples = [s]"
    using filter_key_unique[OF assms] .
  then show ?thesis
    by (simp add: sample_records_def SampleCellFrequencies_def select_population_def
        totals_def filter_map o_def Let_def)
qed

lemma total_count_exact:
  assumes nn: "nonneg_counts s" and hi: "exact_total s < 2 ^ 63"
  shows "total_count s = SqlInt (exact_total s)"
proof -
  have b: "0 \<le> sm_b_cell s" "0 \<le> sm_cd8_t_cell s" "0 \<le> sm_cd4_t_cell s"
    "0 \<le> sm_nk_cell s" "0 \<le> sm_monocyte s"
    using nn by (simp_all add: nonneg_counts_def)
  have h: "sm_b_cell s + sm_cd8_t_cell s + sm_cd4_t_cell s + sm_nk_cell s + sm_monocyte s < 2 ^ 63"
    using hi by (simp add: exact_total_def)
  have "int64 (sm_b_cell s + sm_cd8_t_cell s)"
    "int64 (sm_b_cell s + sm_cd8_t_cell s + sm_cd4_t_cell s)"
    "int64 (sm_b_cell s + sm_cd8_t_cell s + sm_cd4_t_cell s + sm_nk_cell s)"
    "int64 (sm_b_cell s + sm_cd8_t_cell s + sm_cd4_t_cell s + sm_nk_cell s + sm_monocyte s)"
    unfolding int64_def using b h by linarith+
  then show ?thesis by (simp add: total_count_def exact_total_def)
qed

lemma percentage_close:
  assumes c: "0 \<le> c" and S: "0 < S"
  shows "\<exists>p. percentage c (SqlInt S) = SqlReal p \<and>
           \<bar>p - 100 * of_int c / of_int S\<bar> \<le> (100 * of_int c / of_int S) / 10 ^ 14"
proof -
  let ?X = "100 * of_int c / of_int S :: rat"
  have X: "0 \<le> ?X" using c S by simp
  have d: "approx 9 (of_int S) (to_double (SqlInt S))"
    using tracks_to_double[of S "SqlInt S"] S by (simp add: tracks_def)
  obtain p where p: "percentage c (SqlInt S) = SqlReal p"
    and l: "?X * lo_factor \<le> p" and h: "p \<le> ?X * hi_factor"
    using percentage_bounds[OF c S _ d] by auto
  have "?X * (1 - 1 / 10 ^ 14) \<le> ?X * lo_factor"
    by (rule mult_left_mono[OF factor_tight(1) X])
  moreover have "?X * hi_factor \<le> ?X * (1 + 1 / 10 ^ 14)"
    by (rule mult_left_mono[OF factor_tight(2) X])
  ultimately have "\<bar>p - ?X\<bar> \<le> ?X / 10 ^ 14"
    using l h by (simp add: algebra_simps abs_le_iff)
  then show ?thesis using p by blast
qed

lemma percentage_20: "percentage 10 (SqlInt 50) = SqlReal 20"
  unfolding percentage_def by code_simp

lemma SampleCellFrequencies_single:
  "SampleCellFrequencies [s] =
     map (\<lambda>(name, c). \<lparr>fr_subject = sm_subject s, fr_sample = sm_sample s,
            fr_total_count = total_count s, fr_population = name, fr_count = c,
            fr_percentage = percentage c (total_count s)\<rparr>) (population_counts s)"
  by (simp add: SampleCellFrequencies_def select_population_def totals_def Let_def
      population_counts_def)

section \<open>The frequency view\<close>

text \<open>
  Claim C1. For a sample of the Samples table (sample codes are the primary key) whose
  counts are non-negative and whose total is positive and fits SQLite's 64-bit INTEGER,
  the view holds exactly five records for the sample, one per population in the order
  b_cell, cd8_t_cell, cd4_t_cell, nk_cell, monocyte; each carries
  total_count = b_cell + cd8_t_cell + cd4_t_cell + nk_cell + monocyte and the percentage
  \<open>100.0 * count / total_count\<close> computed in binary64, which is the exact quotient
  100 * count / total up to a relative error of \<open>10^-14\<close>. For the counts
  (10,10,10,10,10) every percentage is exactly 20.0.
\<close>

theorem frequency_view_contract:
  assumes keys: "distinct (map sm_sample Samples)" and s: "s \<in> set Samples"
    and nn: "nonneg_counts s" and pos: "0 < exact_total s" and hi: "exact_total s < 2 ^ 63"
  shows "sample_records Samples (sm_sample s) =
           map (\<lambda>(name, c). \<lparr>fr_subject = sm_subject s, fr_sample = sm_sample s,
                  fr_total_count = SqlInt (exact_total s), fr_population = name, fr_count = c,
                  fr_percentage = percentage c (SqlInt (exact_total s))\<rparr>)
               (population_counts s)
       \<and> (\<forall>(name, c) \<in> set (population_counts s).
            \<exists>p. percentage c (SqlInt (exact_total s)) = SqlReal p \<and>
              \<bar>p - 100 * of_int c / of_int (exact_total s)\<bar>
                \<le> 100 * of_int c / of_int (exact_total s) / 10 ^ 14)
       \<and> (map snd (population_counts s) = [10, 10, 10, 10, 10] \<longrightarrow>
            map fr_percentage (sample_records Samples (sm_sample s)) =
              [SqlReal 20, SqlReal 20, SqlReal 20, SqlReal 20, SqlReal 20])"
proof (intro conjI)
  have t: "total_count s = SqlInt (exact_total s)"
    using total_count_exact[OF nn hi] .
  show r: "sample_records Samples (sm_sample s) =
           map (\<lambda>(name, c). \<lparr>fr_subject = sm_subject s, fr_sample = sm_sample s,
                  fr_total_count = SqlInt (exact_total s), fr_population = name, fr_count = c,
                  fr_percentage = percentage c (SqlInt (exact_total s))\<rparr>)
               (population_counts s)"
    unfolding sample_records_single[OF keys s] SampleCellFrequencies_single t ..
  have c: "\<forall>(name, c) \<in> set (population_counts s). 0 \<le> c"
    using nn by (simp add: population_counts_def nonneg_counts_def)
  show "\<forall>(name, c) \<in> set (population_counts s).
            \<exists>p. percentage c (SqlInt (exact_total s)) = SqlReal p \<and>
              \<bar>p - 100 * of_int c / of_int (exact_total s)\<bar>
                \<le> 100 * of_int c / of_int (exact_total s) / 10 ^ 14"
    using c percentage_close[OF _ pos] by blast
  show "map snd (population_counts s) = [10, 10, 10, 10, 10] \<longrightarrow>
            map fr_percentage (sample_records Samples (sm_sample s)) =
              [SqlReal 20, SqlReal 20, SqlReal 20, SqlReal 20, SqlReal 20]"
  proof
    assume a: "map snd (population_counts s) = [10, 10, 10, 10, 10]"
    then have e: "exact_total s = 50" by (simp add: population_counts_def exact_total_def)
    show "map fr_percentage (sample_records Samples (sm_sample s)) =
              [SqlReal 20, SqlReal 20, SqlReal 20, SqlReal 20, SqlReal 20]"
      using a unfolding r e by (simp add: population_counts_def percentage_20)
  qed
qed

theorem frequency_view_contract_witness:
  "map fr_percentage (sample_records [sample_mixed, sample_10] ''s1'') =
     [SqlReal 20, SqlReal 20, SqlReal 20, SqlReal 20, SqlReal 20]
   \<and> map fr_total_count (sample_records [sample_mixed, sample_10] ''s1'') =
     [SqlInt 50, SqlInt 50, SqlInt 50, SqlInt 50, SqlInt 50]
   \<and> map fr_population (sample_records [sample_mixed, sample_10] ''s1'') =
     [''b_cell'', ''cd8_t_cell'', ''cd4_t_cell'', ''nk_cell'', ''monocyte'']"
proof -
  have h1: "distinct (map sm_sample [sample_mixed, sample_10])"
    by (simp add: sample_mixed_def sample_10_def)
  have h2: "sample_10 \<in> set [sample_mixed, sample_10]" by simp
  have h3: "nonneg_counts sample_10" by (simp add: nonneg_counts_def sample_10_def)
  have h4: "0 < exact_total sample_10" by (simp add: exact_total_def sample_10_def)
  have h5: "exact_total sample_10 < 2 ^ 63" by (simp add: exact_total_def sample_10_def)
  have k: "sm_sample sample_10 = ''s1''" by (simp add: sample_10_def)
  have e: "exact_total sample_10 = 50" by (simp add: exact_total_def sample_10_def)
  have p: "map snd (population_counts sample_10) = [10, 10, 10, 10, 10]"
    by (simp add: population_counts_def sample_10_def)
  note c = frequency_view_contract[OF h1 h2 h3 h4 h5]
  have a: "map fr_percentage (sample_records [sample_mixed, sample_10] (sm_sample sample_10)) =
     [SqlReal 20, SqlReal 20, SqlReal 20, SqlReal 20, SqlReal 20]"
    using c p by blast
  have r: "sample_records [sample_mixed, sample_10] (sm_sample sample_10) =
      map (\<lambda>(name, c). \<lparr>fr_subject = sm_subject sample_10, fr_sample = sm_sample sample_10,
             fr_total_count = SqlInt (exact_total sample_10), fr_population = name, fr_count = c,
             fr_percentage = percentage c (SqlInt (exact_total sample_10))\<rparr>)
          (population_counts sample_10)"
    using c by blast
  have t: "map fr_total_count (sample_records [sample_mixed, sample_10] (sm_sample sample_10)) =
     [SqlInt 50, SqlInt 50, SqlInt 50, SqlInt 50, SqlInt 50]"
    unfolding r e by (simp add: population_counts_def)
  have n: "map fr_population (sample_records [sample_mixed, sample_10] (sm_sample sample_10)) =
     [''b_cell'', ''cd8_t_cell'', ''cd4_t_cell'', ''nk_cell'', ''monocyte'']"
    unfolding r by (simp add: population_counts_def)
  show ?thesis using a t n unfolding k by blast
qed

text \<open>
  Claim C2. For a sample with non-negative counts and a strictly positive total, the
  five percentages the view derives for it are doubles whose sum differs from 100 by
  at most \<open>10^-6\<close>. This holds also when the 64-bit sum of the counts overflows and
  SQLite continues the addition in doubles.
\<close>

theorem percentages_sum_to_100:
  assumes keys: "distinct (map sm_sample Samples)" and s: "s \<in> set Samples"
    and nn: "nonneg_counts s" and pos: "0 < exact_total s"
  shows "\<exists>ps. map fr_percentage (sample_records Samples (sm_sample s)) = map SqlReal ps \<and>
           length ps = 5 \<and> \<bar>sum_list ps - 100\<bar> \<le> 1 / 10 ^ 6"
proof -
  let ?S = "exact_total s" and ?v = "total_count s"
  let ?X = "\<lambda>c. 100 * of_int c / of_int ?S :: rat"
  have tr: "tracks 8 ?S ?v" using tracks_total_count[OF nn] .
  have v: "?v \<noteq> SqlNull" using tracks_not_null[OF tr] .
  have d: "approx 9 (of_int ?S) (to_double ?v)"
    using tracks_to_double[OF _ tr] pos by simp
  have b: "0 \<le> sm_b_cell s" "0 \<le> sm_cd8_t_cell s" "0 \<le> sm_cd4_t_cell s"
    "0 \<le> sm_nk_cell s" "0 \<le> sm_monocyte s"
    using nn by (simp_all add: nonneg_counts_def)
  obtain p1 where p1: "percentage (sm_b_cell s) ?v = SqlReal p1"
    and l1: "?X (sm_b_cell s) * lo_factor \<le> p1" and h1: "p1 \<le> ?X (sm_b_cell s) * hi_factor"
    using percentage_bounds[OF b(1) pos v d] by auto
  obtain p2 where p2: "percentage (sm_cd8_t_cell s) ?v = SqlReal p2"
    and l2: "?X (sm_cd8_t_cell s) * lo_factor \<le> p2" and h2: "p2 \<le> ?X (sm_cd8_t_cell s) * hi_factor"
    using percentage_bounds[OF b(2) pos v d] by auto
  obtain p3 where p3: "percentage (sm_cd4_t_cell s) ?v = SqlReal p3"
    and l3: "?X (sm_cd4_t_cell s) * lo_factor \<le> p3" and h3: "p3 \<le> ?X (sm_cd4_t_cell s) * hi_factor"
    using percentage_bounds[OF b(3) pos v d] by auto
  obtain p4 where p4: "percentage (sm_nk_cell s) ?v = SqlReal p4"
    and l4: "?X (sm_nk_cell s) * lo_factor \<le> p4" and h4: "p4 \<le> ?X (sm_nk_cell s) * hi_factor"
    using percentage_bounds[OF b(4) pos v d] by auto
  obtain p5 where p5: "percentage (sm_monocyte s) ?v = SqlReal p5"
    and l5: "?X (sm_monocyte s) * lo_factor \<le> p5" and h5: "p5 \<le> ?X (sm_monocyte s) * hi_factor"
    using percentage_bounds[OF b(5) pos v d] by auto
  have "?X (sm_b_cell s) + ?X (sm_cd8_t_cell s) + ?X (sm_cd4_t_cell s) + ?X (sm_nk_cell s)
          + ?X (sm_monocyte s) = 100 * of_int ?S / of_int ?S"
    unfolding exact_total_def by (simp add: add_divide_distrib distrib_left)
  also have "\<dots> = 100" using pos by simp
  finally have X: "?X (sm_b_cell s) + ?X (sm_cd8_t_cell s) + ?X (sm_cd4_t_cell s)
      + ?X (sm_nk_cell s) + ?X (sm_monocyte s) = 100" .
  have "(?X (sm_b_cell s) + ?X (sm_cd8_t_cell s) + ?X (sm_cd4_t_cell s) + ?X (sm_nk_cell s)
          + ?X (sm_monocyte s)) * lo_factor \<le> p1 + p2 + p3 + p4 + p5"
    unfolding distrib_right using l1 l2 l3 l4 l5 by linarith
  then have lo: "100 * lo_factor \<le> p1 + p2 + p3 + p4 + p5" unfolding X .
  have "p1 + p2 + p3 + p4 + p5 \<le> (?X (sm_b_cell s) + ?X (sm_cd8_t_cell s)
          + ?X (sm_cd4_t_cell s) + ?X (sm_nk_cell s) + ?X (sm_monocyte s)) * hi_factor"
    unfolding distrib_right using h1 h2 h3 h4 h5 by linarith
  then have hi: "p1 + p2 + p3 + p4 + p5 \<le> 100 * hi_factor" unfolding X .
  have fn: "100 - 1 / 1000000 \<le> 100 * lo_factor" "100 * hi_factor \<le> 100 + 1 / 1000000"
    using factor_numeric by simp_all
  have "p1 + p2 + p3 + p4 + p5 - 100 \<le> 1 / 1000000"
    and "- (p1 + p2 + p3 + p4 + p5 - 100) \<le> 1 / 1000000"
    using lo hi fn by linarith+
  then have "\<bar>p1 + p2 + p3 + p4 + p5 - 100\<bar> \<le> 1 / 1000000"
    by (simp only: abs_le_iff)
  then have "\<bar>sum_list [p1, p2, p3, p4, p5] - 100\<bar> \<le> 1 / 10 ^ 6"
    by (simp add: add.assoc)
  moreover have "map fr_percentage (sample_records Samples (sm_sample s))
      = map SqlReal [p1, p2, p3, p4, p5]"
    unfolding sample_records_single[OF keys s] SampleCellFrequencies_single
    by (simp add: population_counts_def p1 p2 p3 p4 p5)
  ultimately show ?thesis by (intro exI[of _ "[p1, p2, p3, p4, p5]"]) simp
qed

theorem percentages_sum_to_100_witness:
  "\<exists>ps. map fr_percentage (sample_records [sample_mixed, sample_10] ''s2'') = map SqlReal ps \<and>
           length ps = 5 \<and> \<bar>sum_list ps - 100\<bar> \<le> 1 / 10 ^ 6"
proof -
  have h1: "distinct (map sm_sample [sample_mixed, sample_10])"
    by (simp add: sample_mixed_def sample_10_def)
  have h2: "sample_mixed \<in> set [sample_mixed, sample_10]" by simp
  have h3: "nonneg_counts sample_mixed" by (simp add: nonneg_counts_def sample_mixed_def)
  have h4: "0 < exact_total sample_mixed" by (simp add: exact_total_def sample_mixed_def)
  have k: "sm_sample sample_mixed = ''s2''" by (simp add: sample_mixed_def)
  show ?thesis
    using percentages_sum_to_100[OF h1 h2 h3 h4] unfolding k .
qed

text \<open>
  A sample whose counts are all zero: SQLite's division by a zero divisor yields NULL.
  The view returns its five records, with NULL in the percentage column; nothing is
  raised.
\<close>

theorem zero_total_counterexample:
  "SampleCellFrequencies [sample_zero] =
     [\<lparr>fr_subject = ''sbj2'', fr_sample = ''s3'', fr_total_count = SqlInt 0,
       fr_population = ''b_cell'', fr_count = 0, fr_percentage = SqlNull\<rparr>,
      \<lparr>fr_subject = ''sbj2'', fr_sample = ''s3'', fr_total_count = SqlInt 0,
       fr_population = ''cd8_t_cell'', fr_count = 0, fr_percentage = SqlNull\<rparr>,
      \<lparr>fr_subject = ''sbj2'', fr_sample = ''s3'', fr_total_count = SqlInt 0,
       fr_population = ''cd4_t_cell'', fr_count = 0, fr_percentage = SqlNull\<rparr>,
      \<lparr>fr_subject = ''sbj2'', fr_sample = ''s3'', fr_total_count = SqlInt 0,
       fr_population = ''nk_cell'', fr_count = 0, fr_percentage = SqlNull\<rparr>,
      \<lparr>fr_subject = ''sbj2'', fr_sample = ''s3'', fr_total_count = SqlInt 0,
       fr_population = ''monocyte'', fr_count = 0, fr_percentage = SqlNull\<rparr>]"
  by (simp add: SampleCellFrequencies_def select_population_def totals_def Let_def
      total_count_def percentage_def sample_zero_def int64_def fl_def)

lemma percentage_zero_total: "percentage c (SqlInt 0) = SqlNull"
  by (simp add: percentage_def fl_def)

text \<open>
  Claim C4, as the code has it. For a sample whose five (non-negative) counts sum to
  zero, the view still emits the five records of the sample and the percentage of each
  is NULL; evaluating the column raises no error.
\<close>

theorem zero_total_gives_null:
  assumes keys: "distinct (map sm_sample Samples)" and s: "s \<in> set Samples"
    and nn: "nonneg_counts s" and z: "exact_total s = 0"
  shows "map fr_percentage (sample_records Samples (sm_sample s)) =
           [SqlNull, SqlNull, SqlNull, SqlNull, SqlNull]
       \<and> map fr_population (sample_records Samples (sm_sample s)) =
           [''b_cell'', ''cd8_t_cell'', ''cd4_t_cell'', ''nk_cell'', ''monocyte'']"
proof -
  have "exact_total s < 2 ^ 63" using z by simp
  then have t: "total_count s = SqlInt 0"
    using total_count_exact[OF nn] z by simp
  show ?thesis
    unfolding sample_records_single[OF keys s] SampleCellFrequencies_single t
    by (simp add: population_counts_def percentage_zero_total)
qed

theorem zero_total_gives_null_witness:
  "map fr_percentage (sample_records [sample_zero, sample_10] ''s3'') =
           [SqlNull, SqlNull, SqlNull, SqlNull, SqlNull]
       \<and> map fr_population (sample_records [sample_zero, sample_10] ''s3'') =
           [''b_cell'', ''cd8_t_cell'', ''cd4_t_cell'', ''nk_cell'', ''monocyte'']"
proof -
  have h1: "distinct (map sm_sample [sample_zero, sample_10])"
    by (simp add: sample_zero_def sample_10_def)
  have h2: "sample_zero \<in> set [sample_zero, sample_10]" by simp
  have h3: "nonneg_counts sample_zero" by (simp add: nonneg_counts_def sample_zero_def)
  have h4: "exact_total sample_zero = 0" by (simp add: exact_total_def sample_zero_def)
  have k: "sm_sample sample_zero = ''s3''" by (simp add: sample_zero_def)
  show ?thesis
    using zero_total_gives_null[OF h1 h2 h3 h4] unfolding k .
qed

section \<open>The loader\<close>

lemma clear_and_create:
  "executescript
     [drop_table_if_exists CountCSVStaging, drop_table_if_exists SamplesTable,
      drop_table_if_exists SubjectsTable, create_table CountCSVStaging,
      create_table SubjectsTable, create_table SamplesTable] db = Inr empty_tables"
  by (simp add: empty_tables_def)

lemma set_select_distinct [simp]: "set (select_distinct xs) = set xs"
  by (simp add: select_distinct_def)

lemma distinct_select_distinct [simp]: "distinct (select_distinct xs)"
  by (simp add: select_distinct_def)

lemma insert_rows_char:
  "insert_rows key t tbl rs =
     (if distinct (map key rs) \<and> key ` set rs \<inter> key ` set tbl = {}
      then Inr (tbl @ rs) else Inl (UniqueConstraintFailed t))"
proof (induction rs arbitrary: tbl)
  case Nil
  then show ?case by simp
next
  case (Cons r rs)
  show ?case
  proof (cases "key r \<in> key ` set tbl")
    case True
    then show ?thesis by auto
  next
    case False
    then show ?thesis using Cons.IH[of "tbl @ [r]"] by auto
  qed
qed

lemma foreign_key_holds:
  "list_all (\<lambda>r. sm_subject r \<in> sj_subject ` set (staged_subjects rows)) (staged_samples rows)"
  by (auto simp: list_all_iff staged_subjects_def staged_samples_def sample_columns_def
      subject_columns_def image_iff intro!: bexI)

lemma part1_load_char:
  "part1_load rows db =
     (if \<not> distinct (map sj_subject (staged_subjects rows))
      then Inl (UniqueConstraintFailed SubjectsTable,
                \<lparr>tb_countCSVStaging = Some rows, tb_Subjects = Some [], tb_Samples = Some []\<rparr>)
      else if \<not> distinct (map sm_sample (staged_samples rows))
      then Inl (UniqueConstraintFailed SamplesTable,
                \<lparr>tb_countCSVStaging = Some rows, tb_Subjects = Some (staged_subjects rows),
                 tb_Samples = Some []\<rparr>)
      else Inr \<lparr>tb_countCSVStaging = None, tb_Subjects = Some (staged_subjects rows),
                tb_Samples = Some (staged_samples rows)\<rparr>)"
  using foreign_key_holds[of rows]
  by (simp add: part1_load_def clear_and_create empty_tables_def insert_into_staging_def
      insert_into_Subjects_def insert_into_Samples_def drop_table_countCSVStaging_def
      insert_rows_char staged_subjects_def staged_samples_def)

lemma same_key_not_distinct:
  "x \<in> set xs \<Longrightarrow> y \<in> set xs \<Longrightarrow> x \<noteq> y \<Longrightarrow> f x = f y \<Longrightarrow> \<not> distinct (map f xs)"
  by (auto simp: distinct_map inj_on_def)

text \<open>
  Claim C7. If two staged rows carry the same subject code but differ in a subject-level
  column (project, condition, age, sex, treatment or response), \<open>SELECT DISTINCT\<close>
  yields two subject rows with that one key, and the load fails with a uniqueness
  violation on the primary key of Subjects.
\<close>

theorem conflicting_subject_rows_fail:
  assumes "r1 \<in> set rows" and "r2 \<in> set rows"
    and "st_subject r1 = st_subject r2"
    and "subject_columns r1 \<noteq> subject_columns r2"
  shows "subject_columns r1 \<in> set (staged_subjects rows)
       \<and> subject_columns r2 \<in> set (staged_subjects rows)
       \<and> sj_subject (subject_columns r1) = sj_subject (subject_columns r2)
       \<and> (\<exists>db'. part1_load rows db = Inl (UniqueConstraintFailed SubjectsTable, db'))"
proof -
  have a: "subject_columns r1 \<in> set (staged_subjects rows)"
    and b: "subject_columns r2 \<in> set (staged_subjects rows)"
    using assms(1,2) by (simp_all add: staged_subjects_def)
  have k: "sj_subject (subject_columns r1) = sj_subject (subject_columns r2)"
    using assms(3) by (simp add: subject_columns_def)
  have "\<not> distinct (map sj_subject (staged_subjects rows))"
    using same_key_not_distinct[OF a b assms(4) k] .
  then show ?thesis using a b k by (simp add: part1_load_char)
qed

theorem conflicting_subject_rows_fail_witness:
  "\<exists>db'. part1_load [row1, row2_age] fresh_store = Inl (UniqueConstraintFailed SubjectsTable, db')"
proof -
  have h1: "row1 \<in> set [row1, row2_age]" and h2: "row2_age \<in> set [row1, row2_age]" by simp_all
  have h3: "st_subject row1 = st_subject row2_age" by (simp add: row1_def row2_age_def)
  have h4: "subject_columns row1 \<noteq> subject_columns row2_age"
    by (simp add: row1_def row2_age_def subject_columns_def)
  show ?thesis
    using conflicting_subject_rows_fail[OF h1 h2 h3 h4, of fresh_store] by blast
qed

text \<open>
  The foreign key of Samples holds in every load: the subjects are taken from the same
  staged rows as the samples and are inserted first (\<open>foreign_key_holds\<close>), so no load
  of staged rows ends with a referential violation.
\<close>

lemma load_never_fails_on_foreign_key:
  "part1_load rows db \<noteq> Inl (ForeignKeyConstraintFailed, db')"
  by (simp add: part1_load_char)

text \<open>
  The statements of the load are committed one by one. With two staged rows that carry
  the sample code \<open>s1\<close> and different counts, \<open>INSERT INTO Subjects\<close> has been committed
  when \<open>INSERT INTO Samples\<close> fails on the duplicate key, and the store keeps the subject
  row and the staged rows.
\<close>

lemma failed_load_keeps_subjects:
  "part1_load [row1, row1_recount] fresh_store =
     Inl (UniqueConstraintFailed SamplesTable,
          \<lparr>tb_countCSVStaging = Some [row1, row1_recount],
           tb_Subjects = Some [subject_columns row1],
           tb_Samples = Some []\<rparr>)"
  by (simp add: part1_load_char staged_subjects_def staged_samples_def select_distinct_def
      subject_columns_def sample_columns_def row1_def row1_recount_def)

text \<open>
  A load into a store that already holds the same subjects and samples: it succeeds
  and leaves the same store; no key violation is raised.
\<close>

theorem load_into_used_store_counterexample:
  "part1_load [row1, row2] loaded_store = Inr loaded_store"
  by (simp add: part1_load_char staged_subjects_def staged_samples_def select_distinct_def
      subject_columns_def sample_columns_def row1_def row2_def loaded_store_def)

text \<open>
  Claim C8, as the code has it. The load drops and recreates its three tables first,
  so its outcome does not depend on what the store held: loading the same rows into a
  fresh store and again into the store that results gives the same Subjects and
  Samples tables (hence the same row counts), and rows left from an earlier load never
  raise a key violation.
\<close>

theorem load_clears_first:
  "part1_load rows db = part1_load rows fresh_store
   \<and> (part1_load rows fresh_store = Inr d \<longrightarrow>
        part1_load rows d = Inr d
        \<and> tb_Subjects d = Some (staged_subjects rows)
        \<and> tb_Samples d = Some (staged_samples rows))"
proof (intro conjI impI)
  show "part1_load rows db = part1_load rows fresh_store"
    by (simp only: part1_load_char)
next
  assume ok: "part1_load rows fresh_store = Inr d"
  then have d: "d = \<lparr>tb_countCSVStaging = None, tb_Subjects = Some (staged_subjects rows),
                      tb_Samples = Some (staged_samples rows)\<rparr>"
    by (simp add: part1_load_char split: if_splits)
  have "part1_load rows d = part1_load rows fresh_store"
    by (simp only: part1_load_char)
  then show "part1_load rows d = Inr d" using ok by simp
  show "tb_Subjects d = Some (staged_subjects rows)" by (simp add: d)
  show "tb_Samples d = Some (staged_samples rows)" by (simp add: d)
qed

theorem load_clears_first_witness:
  "part1_load [row1, row2] fresh_store = Inr loaded_store
   \<and> part1_load [row1, row2] loaded_store = Inr loaded_store"
proof -
  have h: "part1_load [row1, row2] fresh_store = Inr loaded_store"
    by (simp add: part1_load_char staged_subjects_def staged_samples_def select_distinct_def
        subject_columns_def sample_columns_def row1_def row2_def loaded_store_def)
  show ?thesis using load_clears_first[of "[row1, row2]" loaded_store loaded_store] h by simp
qed

section \<open>The cohort comparison\<close>

lemma get_cell_data_eqs:
  "get_cell_data ''b_cell'' Subjects Samples = bCellDf Subjects Samples"
  "get_cell_data ''cd8_t_cell'' Subjects Samples = cd8CellDf Subjects Samples"
  "get_cell_data ''cd4_t_cell'' Subjects Samples = cd4CellDf Subjects Samples"
  "get_cell_data ''nk_cell'' Subjects Samples = nkCellDf Subjects Samples"
  "get_cell_data ''monocyte'' Subjects Samples = monocyteCellDf Subjects Samples"
  by (simp_all only: get_cell_data_def bCellDf_def cd8CellDf_def cd4CellDf_def nkCellDf_def
      monocyteCellDf_def)

text \<open>
  Claim C10. For the same Subjects and Samples tables and the same t-test routine, the
  batch script's Part 3 loop and the dashboard's start-up loop obtain the same
  statistic and p-value for every population, in the same order and under the same
  display names (the dashboard's values are those before it rounds them), and they
  stop at the same population if the routine raises.
\<close>

theorem batch_and_dashboard_agree:
  "part3_statistics ttest_ind Subjects Samples = dashboard_statistics ttest_ind Subjects Samples"
  by (simp add: part3_statistics_def dashboard_statistics_def dfs_def cell_data_def
      populations_def population_names_def get_cell_data_eqs
      split: sum.splits prod.splits)

lemma part3_loop_outcome:
  "part3_loop ttest_ind ds = (out, err) \<Longrightarrow>
     length out \<le> length ds
     \<and> (\<forall>i < length out.
          fst (out ! i) = fst (ds ! i) \<and>
          ttest_ind (responders (snd (ds ! i))) (nonresponders (snd (ds ! i)))
            = Inr (snd (out ! i)))
     \<and> (err = None \<longrightarrow> length out = length ds)
     \<and> (\<forall>x. err = Some x \<longrightarrow>
          length out < length ds \<and>
          (\<exists>e. x = Raised e \<and>
             ttest_ind (responders (snd (ds ! length out)))
               (nonresponders (snd (ds ! length out))) = Inl e))"
proof (induction ds arbitrary: out err)
  case Nil
  then show ?case by simp
next
  case (Cons d ds)
  obtain name df where d: "d = (name, df)" by (cases d)
  show ?case
  proof (cases "ttest_ind (responders df) (nonresponders df)")
    case (Inl e)
    then have "out = []" "err = Some (Raised e)" using Cons.prems d by simp_all
    then show ?thesis using Inl d by simp
  next
    case (Inr r)
    obtain out' err' where rest: "part3_loop ttest_ind ds = (out', err')"
      by (cases "part3_loop ttest_ind ds")
    then have o: "out = (name, r) # out'" and e: "err = err'"
      using Cons.prems d Inr by simp_all
    note ih = Cons.IH[OF rest]
    have idx: "\<forall>i < length out.
          fst (out ! i) = fst ((d # ds) ! i) \<and>
          ttest_ind (responders (snd ((d # ds) ! i))) (nonresponders (snd ((d # ds) ! i)))
            = Inr (snd (out ! i))"
    proof (intro allI impI)
      fix i assume i: "i < length out"
      show "fst (out ! i) = fst ((d # ds) ! i) \<and>
          ttest_ind (responders (snd ((d # ds) ! i))) (nonresponders (snd ((d # ds) ! i)))
            = Inr (snd (out ! i))"
      proof (cases i)
        case 0
        then show ?thesis using o d Inr by simp
      next
        case (Suc j)
        then have "j < length out'" using i o by simp
        then show ?thesis using ih Suc o by simp
      qed
    qed
    show ?thesis using ih idx o e by simp
  qed
qed

lemma length_dfs: "length (dfs Subjects Samples) = 5"
  by (simp add: dfs_def)

lemma no_nonresponders:
  "\<forall>sj \<in> set Subjects. sj_response sj \<noteq> ''no'' \<Longrightarrow>
     nonresponders (bCellDf Subjects Samples) = []"
  by (auto simp: nonresponders_def bCellDf_def filter_empty_conv split: if_splits)

lemma empty_arm: "nonresponders (bCellDf [subject_yes] [sample_10, sample_mixed]) = []"
  by (rule no_nonresponders) (simp add: subject_yes_def)

text \<open>
  A cohort whose only subject responded: the non-responder arm of every population is
  empty. Whatever the t-test routine does with the arms of the first population, the
  loop does one of two things: the routine returns and its value is reported as the
  result for B Cell, like any other result, or the routine raises and the run ends with
  that exception and no population reported. In neither case does the comparison fail
  for one population and go on with the others.
\<close>

theorem small_arm_counterexample:
  "length (nonresponders (bCellDf [subject_yes] [sample_10, sample_mixed])) < 2
   \<and> (\<forall>ttest_ind.
        (\<exists>r rest err.
           ttest_ind (responders (bCellDf [subject_yes] [sample_10, sample_mixed]))
                     (nonresponders (bCellDf [subject_yes] [sample_10, sample_mixed])) = Inr r \<and>
           part3_statistics ttest_ind [subject_yes] [sample_10, sample_mixed]
             = ((''B Cell'', r) # rest, err))
      \<or> (\<exists>e. part3_statistics ttest_ind [subject_yes] [sample_10, sample_mixed]
             = ([], Some (Raised e))))"
proof (intro conjI allI)
  show "length (nonresponders (bCellDf [subject_yes] [sample_10, sample_mixed])) < 2"
    by (simp add: empty_arm)
next
  fix ttest_ind :: "sqlval list \<Rightarrow> sqlval list \<Rightarrow> 'e + 'r"
  let ?b = "bCellDf [subject_yes] [sample_10, sample_mixed]"
  show "(\<exists>r rest err.
           ttest_ind (responders ?b) (nonresponders ?b) = Inr r \<and>
           part3_statistics ttest_ind [subject_yes] [sample_10, sample_mixed]
             = ((''B Cell'', r) # rest, err))
      \<or> (\<exists>e. part3_statistics ttest_ind [subject_yes] [sample_10, sample_mixed]
             = ([], Some (Raised e)))"
  proof (cases "ttest_ind (responders ?b) (nonresponders ?b)")
    case (Inl e)
    then show ?thesis by (simp add: part3_statistics_def dfs_def)
  next
    case (Inr r)
    then show ?thesis
      by (simp add: part3_statistics_def dfs_def split: prod.splits)
  qed
qed

text \<open>
  Claim C5, as the code has it. The comparison makes no check of the sizes of the two
  arms and has no insufficient-data condition of its own. Whatever their sizes, it
  passes the responders' and the non-responders' percentages of a population to the
  t-test routine. The populations reported are the first ones, in order, on which the
  routine returned, each with exactly the value the routine returned for it. When the
  routine raises, the loop ends with that exception: the population it raised on and
  all later ones are not reported. When it never raises, all five are reported.
\<close>

theorem comparison_passes_arms_through:
  assumes "part3_statistics ttest_ind Subjects Samples = (out, err)"
  shows "length out \<le> 5
     \<and> (\<forall>i < length out.
          fst (out ! i) = fst (dfs Subjects Samples ! i) \<and>
          ttest_ind (responders (snd (dfs Subjects Samples ! i)))
                    (nonresponders (snd (dfs Subjects Samples ! i)))
            = Inr (snd (out ! i)))
     \<and> (err = None \<longrightarrow> length out = 5)
     \<and> (\<forall>x. err = Some x \<longrightarrow>
          length out < 5 \<and>
          (\<exists>e. x = Raised e \<and>
             ttest_ind (responders (snd (dfs Subjects Samples ! length out)))
                       (nonresponders (snd (dfs Subjects Samples ! length out))) = Inl e))"
  using part3_loop_outcome[of ttest_ind "dfs Subjects Samples" out err] assms
  unfolding part3_statistics_def length_dfs by blast

theorem comparison_passes_arms_through_witness:
  "part3_statistics (\<lambda>xs ys. Inr (length xs, length ys) :: string + nat \<times> nat)
      [subject_yes, subject_no] [sample_10, sample_mixed, sample_no] =
     ([(''B Cell'', 2, 1), (''CD8 T Cell'', 2, 1), (''CD4 T Cell'', 2, 1), (''NK Cell'', 2, 1),
       (''Monocyte'', 2, 1)], None)
   \<and> part3_statistics
        (\<lambda>xs ys. if length xs < 2 \<or> length ys < 2 then Inl ''too few''
                  else Inr (length xs, length ys))
      [subject_yes, subject_no] [sample_10, sample_mixed, sample_no] =
     ([], Some (Raised ''too few''))
   \<and> length (nonresponders
        (snd (dfs [subject_yes, subject_no] [sample_10, sample_mixed, sample_no] ! 0))) = 1"
proof -
  let ?S = "[subject_yes, subject_no]" and ?M = "[sample_10, sample_mixed, sample_no]"
  let ?sizes = "\<lambda>xs ys. Inr (length xs, length ys) :: string + nat \<times> nat"
  let ?strict = "\<lambda>xs ys. if length xs < 2 \<or> length ys < 2 then Inl ''too few''
                  else (Inr (length xs, length ys) :: string + nat \<times> nat)"
  have h1: "part3_statistics ?sizes ?S ?M =
     ([(''B Cell'', 2, 1), (''CD8 T Cell'', 2, 1), (''CD4 T Cell'', 2, 1), (''NK Cell'', 2, 1),
       (''Monocyte'', 2, 1)], None)"
    by (simp add: part3_statistics_def dfs_def bCellDf_def cd8CellDf_def cd4CellDf_def
        nkCellDf_def monocyteCellDf_def responders_def nonresponders_def
        SampleCellFrequencies_def select_population_def totals_def Let_def subject_yes_def
        subject_no_def sample_10_def sample_mixed_def sample_no_def)
  have h2: "part3_statistics ?strict ?S ?M = ([], Some (Raised ''too few''))"
    by (simp add: part3_statistics_def dfs_def bCellDf_def responders_def nonresponders_def
        SampleCellFrequencies_def select_population_def totals_def Let_def subject_yes_def
        subject_no_def sample_10_def sample_mixed_def sample_no_def)
  have a: "?sizes (responders (snd (dfs ?S ?M ! 0))) (nonresponders (snd (dfs ?S ?M ! 0)))
      = Inr (2, 1)"
    using comparison_passes_arms_through[OF h1] by auto
  have b: "?strict (responders (snd (dfs ?S ?M ! 0))) (nonresponders (snd (dfs ?S ?M ! 0)))
      = Inl ''too few''"
  proof -
    note c = comparison_passes_arms_through[OF h2, unfolded list.size]
    then obtain e where e: "Raised ''too few'' = (Raised e :: string py_exception)"
      and r: "?strict (responders (snd (dfs ?S ?M ! 0))) (nonresponders (snd (dfs ?S ?M ! 0)))
        = Inl e"
      by blast
    from e have "e = ''too few''" by (simp only: py_exception.inject)
    then show ?thesis using r by (simp only:)
  qed
  from a have "length (nonresponders (snd (dfs ?S ?M ! 0))) = 1" by simp
  then show ?thesis using h1 h2 b by simp
qed

section \<open>The baseline subset report\<close>

lemma no_match_rows:
  assumes "\<not> cohort_matches Subjects Samples"
  shows "[g sm sj. sm \<leftarrow> Samples, sj \<leftarrow> Subjects, sj_subject sj = sm_subject sm,
            filter_condition sj sm] = []"
  using assms by (auto simp: cohort_matches_def list_ex_iff)

text \<open>
  Claim C9. When no sample joined to its subject passes the baseline filter
  (treatment miraclib, condition melanoma, sample type PBMC, time from treatment 0),
  each of the four report queries returns the empty result: no row, no group.
\<close>

theorem empty_cohort_gives_empty_reports:
  assumes "\<not> cohort_matches Subjects Samples"
  shows "query1 Subjects Samples = [] \<and> query2 Subjects Samples = []
       \<and> query3 Subjects Samples = [] \<and> query4 Subjects Samples = []"
  unfolding query1_def query2_def query3_def query4_def no_match_rows[OF assms]
  by simp

theorem empty_cohort_gives_empty_reports_witness:
  "\<not> cohort_matches [subject_yes, subject_other] [sample_mixed, sample_zero]
   \<and> query1 [subject_yes, subject_other] [sample_mixed, sample_zero] = []
   \<and> query2 [subject_yes, subject_other] [sample_mixed, sample_zero] = []
   \<and> query3 [subject_yes, subject_other] [sample_mixed, sample_zero] = []
   \<and> query4 [subject_yes, subject_other] [sample_mixed, sample_zero] = []"
proof -
  have h: "\<not> cohort_matches [subject_yes, subject_other] [sample_mixed, sample_zero]"
    by (simp add: cohort_matches_def filter_condition_def subject_yes_def subject_other_def
        sample_mixed_def sample_zero_def)
  show ?thesis using empty_cohort_gives_empty_reports[OF h] h by blast
qed

end
